theory Spec2Isabelle
  imports Main
begin

section \<open>The dmgbuild settings module of GitBar\<close>

text \<open>
  The repository is one Python module, \<^verbatim>\<open>dmg-settings.py\<close>: two imports followed by
  fourteen top-level assignments. The external tool \<^verbatim>\<open>dmgbuild\<close> executes the module
  and reads the resulting top-level names. The model below executes the module's
  statements in source order over an explicit namespace, with every place where
  Python could raise written as an error result.
\<close>

subsection \<open>Values and errors\<close>

text \<open>
  The Python values the module builds: \<^verbatim>\<open>None\<close>, integers, strings, list displays,
  tuples, dictionaries with string keys (in insertion order) and the two imported
  module objects. A \<^typ>\<open>string\<close> stands for a Python \<^verbatim>\<open>str\<close>.
\<close>

datatype pyval =
    PNone
  | PInt int
  | PStr string
  | PList "pyval list"
  | PTuple "pyval list"
  | PDict "(string \<times> pyval) list"
  | PModule string

datatype error =
    NameError string
  | AttributeError string
  | TypeError

definition bind_result :: "error + 'a \<Rightarrow> ('a \<Rightarrow> error + 'b) \<Rightarrow> error + 'b" where
  "bind_result m f = (case m of Inl e \<Rightarrow> Inl e | Inr x \<Rightarrow> f x)"

subsection \<open>The process environment and the path functions\<close>

text \<open>\<^verbatim>\<open>os.environ\<close>: a mapping from variable names to their values.\<close>

type_synonym environ = "string \<rightharpoonup> string"

text \<open>\<^verbatim>\<open>os.environ.get(key, default)\<close>: the value when the key is present, else the default.\<close>

definition environ_get :: "environ \<Rightarrow> string \<Rightarrow> string \<Rightarrow> string" where
  "environ_get env key dflt = (case env key of None \<Rightarrow> dflt | Some v \<Rightarrow> v)"

text \<open>
  \<^verbatim>\<open>os.path.join(a, b)\<close> of the standard library (\<^verbatim>\<open>posixpath\<close>, the tool runs on macOS),
  for two strings:
  \<^verbatim>\<open>
  if b.startswith('/'):               path = b
  elif not path or path.endswith('/'): path += b
  else:                                path += '/' + b
  \<close>
\<close>

definition startswith_sep :: "string \<Rightarrow> bool" where
  "startswith_sep s = (case s of [] \<Rightarrow> False | c # _ \<Rightarrow> c = CHR ''/'')"

definition endswith_sep :: "string \<Rightarrow> bool" where
  "endswith_sep s = (case rev s of [] \<Rightarrow> False | c # _ \<Rightarrow> c = CHR ''/'')"

definition posixpath_join :: "string \<Rightarrow> string \<Rightarrow> string" where
  "posixpath_join a b =
     (if startswith_sep b then b
      else if a = [] \<or> endswith_sep a then a @ b
      else a @ ''/'' @ b)"

text \<open>\<^verbatim>\<open>os.path.join\<close> on values: anything but two strings is a \<^verbatim>\<open>TypeError\<close>.\<close>

fun path_join :: "pyval \<Rightarrow> pyval \<Rightarrow> error + pyval" where
  "path_join (PStr a) (PStr b) = Inr (PStr (posixpath_join a b))"
| "path_join _ _ = Inl TypeError"

subsection \<open>Namespace, expressions and statements\<close>

text \<open>
  The module namespace is kept as the list of the stores executed so far, the most
  recent first: a load reads the most recent store of the name (\<^const>\<open>map_of\<close> takes
  the first match) and an unbound name is a \<^verbatim>\<open>NameError\<close>. Keeping every store makes a
  rebinding of a name visible as a repeated key.
\<close>

type_synonym namespace = "(string \<times> pyval) list"

definition store :: "string \<Rightarrow> pyval \<Rightarrow> namespace \<Rightarrow> namespace" where
  "store n v ns = (n, v) # ns"

definition load :: "string \<Rightarrow> namespace \<Rightarrow> error + pyval" where
  "load n ns = (case map_of ns n of None \<Rightarrow> Inl (NameError n) | Some v \<Rightarrow> Inr v)"

text \<open>
  The expression \<^verbatim>\<open>os\<close> followed by an attribute access: the name must be bound, and
  bound to the module \<^verbatim>\<open>os\<close>, for \<^verbatim>\<open>os.environ\<close> and \<^verbatim>\<open>os.path\<close> to exist.
\<close>

definition os_module :: "namespace \<Rightarrow> error + unit" where
  "os_module ns =
     bind_result (load ''os'' ns)
       (\<lambda>v. case v of
               PModule m \<Rightarrow> if m = ''os'' then Inr () else Inl (AttributeError m)
             | _ \<Rightarrow> Inl (AttributeError ''os''))"

text \<open>An expression is evaluated in the current namespace and may raise.\<close>

type_synonym expr = "namespace \<Rightarrow> error + pyval"

definition const :: "pyval \<Rightarrow> expr" where
  "const v ns = Inr v"

definition name :: "string \<Rightarrow> expr" where
  "name n ns = load n ns"

definition os_environ_get :: "environ \<Rightarrow> string \<Rightarrow> string \<Rightarrow> expr" where
  "os_environ_get env key dflt ns =
     bind_result (os_module ns) (\<lambda>_. Inr (PStr (environ_get env key dflt)))"

definition os_path_join :: "expr \<Rightarrow> expr \<Rightarrow> expr" where
  "os_path_join e1 e2 ns =
     bind_result (os_module ns) (\<lambda>_.
     bind_result (e1 ns) (\<lambda>a.
     bind_result (e2 ns) (\<lambda>b. path_join a b)))"

fun list_display :: "expr list \<Rightarrow> expr" where
  "list_display [] ns = Inr (PList [])"
| "list_display (e # es) ns =
     bind_result (e ns) (\<lambda>v.
     bind_result (list_display es ns) (\<lambda>r.
       case r of PList vs \<Rightarrow> Inr (PList (v # vs)) | _ \<Rightarrow> Inl TypeError))"

text \<open>A statement takes the namespace to the next one, or raises.\<close>

type_synonym stmt = "namespace \<Rightarrow> error + namespace"

definition import_module :: "string \<Rightarrow> stmt" where
  "import_module m ns = Inr (store m (PModule m) ns)"

definition assign :: "string \<Rightarrow> expr \<Rightarrow> stmt" where
  "assign n e ns = bind_result (e ns) (\<lambda>v. Inr (store n v ns))"

text \<open>A statement list runs in order and stops at the first error.\<close>

fun exec_stmts :: "stmt list \<Rightarrow> namespace \<Rightarrow> error + namespace" where
  "exec_stmts [] ns = Inr ns"
| "exec_stmts (s # ss) ns =
     (case s ns of Inl e \<Rightarrow> Inl e | Inr ns' \<Rightarrow> exec_stmts ss ns')"

subsection \<open>The module\<close>

text \<open>The statements of \<^verbatim>\<open>dmg-settings.py\<close>, line by line.\<close>

definition dmg_settings_body :: "environ \<Rightarrow> stmt list" where
  "dmg_settings_body env =
    [ import_module ''os'',
      import_module ''sys'',
      assign ''app_path'' (os_environ_get env ''APP_PATH'' ''build/Release/GitBar.app''),
      assign ''dmg_resources'' (os_environ_get env ''DMG_RESOURCES'' ''dmg-resources''),
      assign ''volume_name'' (const (PStr ''GitBar'')),
      assign ''format'' (const (PStr ''UDBZ'')),
      assign ''size'' (const PNone),
      assign ''files'' (list_display [name ''app_path'']),
      assign ''symlinks'' (const (PDict [(''Applications'', PStr ''/Applications'')])),
      assign ''icon'' (os_path_join (name ''dmg_resources'') (const (PStr ''AppIcon.icns''))),
      assign ''background''
        (os_path_join (name ''dmg_resources'') (const (PStr ''background.png''))),
      assign ''window_rect''
        (const (PTuple [PTuple [PInt 200, PInt 120], PTuple [PInt 660, PInt 400]])),
      assign ''icon_size'' (const (PInt 100)),
      assign ''icon_locations''
        (const (PDict [(''GitBar.app'', PTuple [PInt 180, PInt 200]),
                       (''Applications'', PTuple [PInt 480, PInt 200])])),
      assign ''hide_extension'' (const (PList [PStr ''GitBar.app''])),
      assign ''text_size'' (const (PInt 12)) ]"

text \<open>Executing the module: its body, from the empty namespace.\<close>

definition dmg_settings :: "environ \<Rightarrow> error + namespace" where
  "dmg_settings env = exec_stmts (dmg_settings_body env) []"

text \<open>What a reader of the executed module finds under a top-level name.\<close>

definition setting :: "string \<Rightarrow> environ \<Rightarrow> pyval option" where
  "setting n env = (case dmg_settings env of Inl e \<Rightarrow> None | Inr ns \<Rightarrow> map_of ns n)"

text \<open>The names the execution stored, in the order of the stores.\<close>

definition stored_names :: "environ \<Rightarrow> string list" where
  "stored_names env = (case dmg_settings env of Inl e \<Rightarrow> [] | Inr ns \<Rightarrow> rev (map fst ns))"

subsection \<open>Vocabulary of the specification\<close>

text \<open>
  Modelled from the spec: the schema of the external tool, which is not part of the
  repository. The spec lists eleven recognized top-level names (volume name, format,
  file list, symlink map, icon path, background path, window rectangle, icon size,
  icon-location map, hidden-extension list, text size); they are written here with the
  identifiers the module uses for them.
\<close>

definition schema_names :: "string list" where
  "schema_names =
    [''volume_name'', ''format'', ''files'', ''symlinks'', ''icon'', ''background'',
     ''window_rect'', ''icon_size'', ''icon_locations'', ''hide_extension'', ''text_size'']"

text \<open>The top-level names whose value is computed from the environment.\<close>

definition env_dependent_names :: "string list" where
  "env_dependent_names = [''app_path'', ''dmg_resources'', ''files'', ''icon'', ''background'']"

text \<open>The shapes of the spec's data model, as predicates on values.\<close>

definition is_str :: "pyval \<Rightarrow> bool" where
  "is_str v = (case v of PStr s \<Rightarrow> True | _ \<Rightarrow> False)"

definition is_int :: "pyval \<Rightarrow> bool" where
  "is_int v = (case v of PInt i \<Rightarrow> True | _ \<Rightarrow> False)"

definition is_str_list :: "pyval \<Rightarrow> bool" where
  "is_str_list v = (case v of PList vs \<Rightarrow> list_all is_str vs | _ \<Rightarrow> False)"

definition is_str_dict :: "pyval \<Rightarrow> bool" where
  "is_str_dict v = (case v of PDict kvs \<Rightarrow> list_all (is_str \<circ> snd) kvs | _ \<Rightarrow> False)"

definition is_coord :: "pyval \<Rightarrow> bool" where
  "is_coord v = (case v of PTuple [x, y] \<Rightarrow> is_int x \<and> is_int y | _ \<Rightarrow> False)"

definition is_rect :: "pyval \<Rightarrow> bool" where
  "is_rect v = (case v of PTuple [p, s] \<Rightarrow> is_coord p \<and> is_coord s | _ \<Rightarrow> False)"

definition is_coord_dict :: "pyval \<Rightarrow> bool" where
  "is_coord_dict v = (case v of PDict kvs \<Rightarrow> list_all (is_coord \<circ> snd) kvs | _ \<Rightarrow> False)"

definition has_shape :: "(pyval \<Rightarrow> bool) \<Rightarrow> string \<Rightarrow> environ \<Rightarrow> bool" where
  "has_shape P n env = (case setting n env of None \<Rightarrow> False | Some v \<Rightarrow> P v)"

text \<open>The strings of a list setting and the keys of a dictionary setting.\<close>

definition str_items :: "pyval option \<Rightarrow> string list" where
  "str_items r =
     (case r of
        Some (PList vs) \<Rightarrow> concat (map (\<lambda>v. case v of PStr s \<Rightarrow> [s] | _ \<Rightarrow> []) vs)
      | _ \<Rightarrow> [])"

definition dict_keys :: "pyval option \<Rightarrow> string list" where
  "dict_keys r = (case r of Some (PDict kvs) \<Rightarrow> map fst kvs | _ \<Rightarrow> [])"

text \<open>
  Modelled from the spec: the names that claim C9 compares the icon-position keys with,
  in its words ``the basename of the single file entry together with the single symlink
  name''. The module computes neither; the basename is read as \<^verbatim>\<open>os.path.basename(p)\<close>
  of the standard library, \<^verbatim>\<open>p[p.rfind('/') + 1:]\<close>, what follows the last separator.
  How the external tool names the items it puts into the image is not part of the
  repository and is not modelled.
\<close>

definition basename :: "string \<Rightarrow> string" where
  "basename p = rev (takeWhile (\<lambda>c. c \<noteq> CHR ''/'') (rev p))"

definition file_entry_basenames :: "environ \<Rightarrow> string list" where
  "file_entry_basenames env = map basename (str_items (setting ''files'' env))"

definition symlink_names :: "environ \<Rightarrow> string list" where
  "symlink_names env = dict_keys (setting ''symlinks'' env)"

text \<open>
  The names given an icon position (the keys of \<^verbatim>\<open>icon_locations\<close>) and the names whose
  extension is hidden (the entries of \<^verbatim>\<open>hide_extension\<close>).
\<close>

definition positioned_items :: "environ \<Rightarrow> string list" where
  "positioned_items env = dict_keys (setting ''icon_locations'' env)"

definition extension_hidden_items :: "environ \<Rightarrow> string list" where
  "extension_hidden_items env = str_items (setting ''hide_extension'' env)"

subsection \<open>The namespace the module ends with\<close>

text \<open>
  The stores of one execution written out, most recent first; \<open>dmg_settings_eval\<close>
  below proves that the execution produces exactly this, for any environment.
\<close>

definition final_namespace :: "environ \<Rightarrow> namespace" where
  "final_namespace env =
    [ (''text_size'', PInt 12),
      (''hide_extension'', PList [PStr ''GitBar.app'']),
      (''icon_locations'', PDict [(''GitBar.app'', PTuple [PInt 180, PInt 200]),
                                  (''Applications'', PTuple [PInt 480, PInt 200])]),
      (''icon_size'', PInt 100),
      (''window_rect'', PTuple [PTuple [PInt 200, PInt 120], PTuple [PInt 660, PInt 400]]),
      (''background'',
         PStr (posixpath_join (environ_get env ''DMG_RESOURCES'' ''dmg-resources'')
                 ''background.png'')),
      (''icon'',
         PStr (posixpath_join (environ_get env ''DMG_RESOURCES'' ''dmg-resources'')
                 ''AppIcon.icns'')),
      (''symlinks'', PDict [(''Applications'', PStr ''/Applications'')]),
      (''files'', PList [PStr (environ_get env ''APP_PATH'' ''build/Release/GitBar.app'')]),
      (''size'', PNone),
      (''format'', PStr ''UDBZ''),
      (''volume_name'', PStr ''GitBar''),
      (''dmg_resources'', PStr (environ_get env ''DMG_RESOURCES'' ''dmg-resources'')),
      (''app_path'', PStr (environ_get env ''APP_PATH'' ''build/Release/GitBar.app'')),
      (''sys'', PModule ''sys''),
      (''os'', PModule ''os'') ]"

section \<open>Executing the module\<close>

lemma dmg_settings_eval: "dmg_settings env = Inr (final_namespace env)"
  by (simp add: dmg_settings_def dmg_settings_body_def final_namespace_def
        import_module_def assign_def store_def load_def os_module_def const_def name_def
        os_environ_get_def os_path_join_def bind_result_def)


lemma setting_eval: "setting n env = map_of (final_namespace env) n"
  by (simp add: setting_def dmg_settings_eval)

lemma stored_names_eval:
  "stored_names env =
    [''os'', ''sys'', ''app_path'', ''dmg_resources'', ''volume_name'', ''format'', ''size'',
     ''files'', ''symlinks'', ''icon'', ''background'', ''window_rect'', ''icon_size'',
     ''icon_locations'', ''hide_extension'', ''text_size'']"
  by (simp add: stored_names_def dmg_settings_eval final_namespace_def)

lemma setting_outside_env_dependent:
  "n \<notin> set env_dependent_names \<Longrightarrow>
   map_of (final_namespace env1) n = map_of (final_namespace env2) n"
  by (simp add: env_dependent_names_def final_namespace_def)

lemma setting_env_dependent_varies:
  "n \<in> set env_dependent_names \<Longrightarrow>
   setting n (map_of []) \<noteq>
   setting n (map_of [(''APP_PATH'', ''a''), (''DMG_RESOURCES'', ''r'')])"
  by (auto simp add: env_dependent_names_def setting_eval final_namespace_def
        environ_get_def posixpath_join_def startswith_sep_def endswith_sep_def)

lemma positioned_items_eval: "positioned_items env = [''GitBar.app'', ''Applications'']"
  by (simp add: positioned_items_def dict_keys_def setting_eval final_namespace_def)

lemma extension_hidden_items_eval: "extension_hidden_items env = [''GitBar.app'']"
  by (simp add: extension_hidden_items_def str_items_def setting_eval final_namespace_def)

lemma file_entry_basenames_eval:
  "file_entry_basenames env =
    [basename (environ_get env ''APP_PATH'' ''build/Release/GitBar.app'')]"
  by (simp add: file_entry_basenames_def str_items_def setting_eval final_namespace_def)

lemma symlink_names_eval: "symlink_names env = [''Applications'']"
  by (simp add: symlink_names_def dict_keys_def setting_eval final_namespace_def)

section \<open>The claims\<close>

subsection \<open>C1: the two paths read from the environment\<close>

text \<open>
  C1. For every process environment, the application-bundle path \<^verbatim>\<open>app_path\<close> is the
  value of \<^verbatim>\<open>APP_PATH\<close> when that variable is set and \<^verbatim>\<open>'build/Release/GitBar.app'\<close> when
  it is unset; the resources-directory path \<^verbatim>\<open>dmg_resources\<close> is the value of
  \<^verbatim>\<open>DMG_RESOURCES\<close> when set and \<^verbatim>\<open>'dmg-resources'\<close> when unset.
\<close>

theorem C1_paths_from_environment:
  "setting ''app_path'' env =
     Some (PStr (case env ''APP_PATH'' of
                   None \<Rightarrow> ''build/Release/GitBar.app'' | Some p \<Rightarrow> p))
   \<and> setting ''dmg_resources'' env =
     Some (PStr (case env ''DMG_RESOURCES'' of
                   None \<Rightarrow> ''dmg-resources'' | Some p \<Rightarrow> p))"
  by (simp add: setting_eval final_namespace_def environ_get_def)

subsection \<open>C2: which top-level names depend on the environment\<close>

text \<open>
  C2 as stated: exactly two top-level path settings are parameterized by the
  environment and every other top-level setting is constant across environments.
  It fails: the file list, the icon path and the background path are top-level
  settings other than \<^verbatim>\<open>app_path\<close> and \<^verbatim>\<open>dmg_resources\<close>, and each takes different values
  under the empty environment and under one that sets the variable it is derived from.
\<close>

theorem C2_counterexample:
  "setting ''files'' (map_of []) \<noteq> setting ''files'' (map_of [(''APP_PATH'', ''x.app'')])
   \<and> setting ''icon'' (map_of []) \<noteq> setting ''icon'' (map_of [(''DMG_RESOURCES'', ''res'')])
   \<and> setting ''background'' (map_of []) \<noteq>
     setting ''background'' (map_of [(''DMG_RESOURCES'', ''res'')])"
  by (simp add: setting_eval final_namespace_def environ_get_def
        posixpath_join_def startswith_sep_def endswith_sep_def)

text \<open>
  C2, amended. Exactly five top-level names vary with the environment: the two path
  settings read from the environment variables (\<^verbatim>\<open>app_path\<close>, \<^verbatim>\<open>dmg_resources\<close>) and the
  three settings derived from them (\<^verbatim>\<open>files\<close>, \<^verbatim>\<open>icon\<close>, \<^verbatim>\<open>background\<close>). Every other
  top-level name (volume name, format, size, symlink map, window rectangle, icon size,
  icon-location map, hidden-extension list, text size and the imported modules) has the
  same value under any two environments.
\<close>

theorem C2_constant_iff_not_env_dependent:
  "(\<forall>env1 env2. setting n env1 = setting n env2) \<longleftrightarrow> n \<notin> set env_dependent_names"
proof
  assume same: "\<forall>env1 env2. setting n env1 = setting n env2"
  show "n \<notin> set env_dependent_names"
  proof
    assume "n \<in> set env_dependent_names"
    then have "setting n (map_of []) \<noteq>
        setting n (map_of [(''APP_PATH'', ''a''), (''DMG_RESOURCES'', ''r'')])"
      by (rule setting_env_dependent_varies)
    with same show False by blast
  qed
next
  assume "n \<notin> set env_dependent_names"
  then show "\<forall>env1 env2. setting n env1 = setting n env2"
    by (simp add: setting_eval setting_outside_env_dependent)
qed

text \<open>
  The amended C2 at the volume name, under the empty environment and under one that
  sets both variables.
\<close>

theorem C2_constant_witness:
  "setting ''volume_name'' (map_of []) =
   setting ''volume_name'' (map_of [(''APP_PATH'', ''x.app''), (''DMG_RESOURCES'', ''res'')])"
  using C2_constant_iff_not_env_dependent [of "''volume_name''"]
  by (simp add: env_dependent_names_def)

subsection \<open>C3: the names the module defines\<close>

text \<open>
  C3 as stated: the module defines the eleven names of the schema and no top-level
  setting outside it. The second half fails: \<^verbatim>\<open>size\<close>, \<^verbatim>\<open>app_path\<close> and \<^verbatim>\<open>dmg_resources\<close>
  are defined at top level and are not among the eleven.
\<close>

theorem C3_counterexample:
  "setting ''size'' (map_of []) \<noteq> None \<and> ''size'' \<notin> set schema_names
   \<and> setting ''app_path'' (map_of []) \<noteq> None \<and> ''app_path'' \<notin> set schema_names
   \<and> setting ''dmg_resources'' (map_of []) \<noteq> None \<and> ''dmg_resources'' \<notin> set schema_names"
  by (simp add: setting_eval final_namespace_def schema_names_def)

text \<open>
  C3, amended. For every environment the module defines a top-level setting for each
  of the eleven names of the schema, and outside the schema exactly five more top-level
  names: the volume-size setting \<^verbatim>\<open>size\<close>, the two path variables \<^verbatim>\<open>app_path\<close> and
  \<^verbatim>\<open>dmg_resources\<close>, and the imported module names \<^verbatim>\<open>os\<close> and \<^verbatim>\<open>sys\<close>.
\<close>

theorem C3_defined_names:
  "{n. setting n env \<noteq> None} =
     set schema_names \<union> {''size'', ''app_path'', ''dmg_resources'', ''os'', ''sys''}
   \<and> set schema_names \<inter> {''size'', ''app_path'', ''dmg_resources'', ''os'', ''sys''} = {}"
  by (auto simp add: setting_eval final_namespace_def schema_names_def split: if_splits)

subsection \<open>C4: the shapes of the values\<close>

text \<open>
  C4. For every environment each configuration value has the shape of the data model:
  the volume name and the format are strings, the file list is a sequence of paths
  (strings), the symlink mapping maps names to target paths, the window rectangle is a
  (position, size) pair of integer pairs, the icon size and the text size are integers,
  the icon-position mapping maps each name to a coordinate pair, and the
  hidden-extension setting is a list of filenames.
\<close>

theorem C4_shapes:
  "has_shape is_str ''volume_name'' env
   \<and> has_shape is_str ''format'' env
   \<and> has_shape is_str_list ''files'' env
   \<and> has_shape is_str_dict ''symlinks'' env
   \<and> has_shape is_rect ''window_rect'' env
   \<and> has_shape is_int ''icon_size'' env
   \<and> has_shape is_int ''text_size'' env
   \<and> has_shape is_coord_dict ''icon_locations'' env
   \<and> has_shape is_str_list ''hide_extension'' env"
  by (simp add: has_shape_def setting_eval final_namespace_def is_str_def is_int_def
        is_str_list_def is_str_dict_def is_coord_def is_rect_def is_coord_dict_def)

subsection \<open>C5: the symlink mapping\<close>

text \<open>
  C5. For every environment the symlink mapping has exactly one entry, named
  \<^verbatim>\<open>Applications\<close>, whose target is the path \<^verbatim>\<open>/Applications\<close>.
\<close>

theorem C5_symlinks:
  "setting ''symlinks'' env = Some (PDict [(''Applications'', PStr ''/Applications'')])"
  by (simp add: setting_eval final_namespace_def)

subsection \<open>C6: the module never raises\<close>

text \<open>
  C6. For every environment (either variable absent, present or empty) executing the
  module raises no error: the execution ends in a namespace, and each of the sixteen
  statements of the body has made its store.
\<close>

theorem C6_never_raises:
  "\<exists>ns. dmg_settings env = Inr ns \<and> length ns = length (dmg_settings_body env)"
  by (simp add: dmg_settings_eval final_namespace_def dmg_settings_body_def)

subsection \<open>C7: determinism and single assignment\<close>

text \<open>
  C7. The module is deterministic and stateless. Two executions under environments
  that agree on \<^verbatim>\<open>APP_PATH\<close> and \<^verbatim>\<open>DMG_RESOURCES\<close> (identical environments in particular)
  end in the same namespace, so every top-level setting has the same value in both; and
  no execution stores a name twice, so no binding changes after its first assignment.
\<close>

theorem C7_deterministic_single_assignment:
  assumes "env1 ''APP_PATH'' = env2 ''APP_PATH''"
    and "env1 ''DMG_RESOURCES'' = env2 ''DMG_RESOURCES''"
  shows "dmg_settings env1 = dmg_settings env2
     \<and> setting n env1 = setting n env2
     \<and> distinct (stored_names env1) \<and> distinct (stored_names env2)"
  using assms
  by (simp add: setting_eval dmg_settings_eval stored_names_eval final_namespace_def
        environ_get_def)

text \<open>
  C7 at two environments that differ in a third variable and agree on the two the
  module reads.
\<close>

theorem C7_deterministic_witness:
  "dmg_settings (map_of [(''APP_PATH'', ''a.app''), (''HOME'', ''/root'')]) =
   dmg_settings (map_of [(''APP_PATH'', ''a.app'')])
   \<and> distinct (stored_names (map_of [(''APP_PATH'', ''a.app'')]))"
  using C7_deterministic_single_assignment
    [of "map_of [(''APP_PATH'', ''a.app''), (''HOME'', ''/root'')]"
        "map_of [(''APP_PATH'', ''a.app'')]"]
  by simp

subsection \<open>C8: the file list\<close>

text \<open>
  C8. For every environment the file list has exactly one entry, the
  application-bundle path: the value of \<^verbatim>\<open>APP_PATH\<close> when set, otherwise
  \<^verbatim>\<open>'build/Release/GitBar.app'\<close>.
\<close>

theorem C8_files:
  "setting ''files'' env =
     Some (PList [PStr (case env ''APP_PATH'' of
                          None \<Rightarrow> ''build/Release/GitBar.app'' | Some p \<Rightarrow> p)])
   \<and> setting ''files'' env = map_option (\<lambda>v. PList [v]) (setting ''app_path'' env)"
  by (simp add: setting_eval final_namespace_def environ_get_def)

subsection \<open>C9: positioned and extension-hidden names against file and symlink names\<close>

text \<open>
  C9 as stated: for every environment the keys of the icon-position mapping are the
  basename of the single file entry together with the single symlink name, so every
  positioned or extension-hidden item is one of the two. It fails when \<^verbatim>\<open>APP_PATH\<close>
  names a bundle with another basename: \<^verbatim>\<open>GitBar.app\<close> is positioned and
  extension-hidden, while the file entry's basename is \<^verbatim>\<open>Other.app\<close> and the symlink's
  name is \<^verbatim>\<open>Applications\<close>.
\<close>

theorem C9_counterexample:
  "set (positioned_items (map_of [(''APP_PATH'', ''build/Release/Other.app'')])) \<noteq>
     set (file_entry_basenames (map_of [(''APP_PATH'', ''build/Release/Other.app'')])
          @ symlink_names (map_of [(''APP_PATH'', ''build/Release/Other.app'')]))
   \<and> \<not> set (positioned_items (map_of [(''APP_PATH'', ''build/Release/Other.app'')])) \<subseteq>
     set (file_entry_basenames (map_of [(''APP_PATH'', ''build/Release/Other.app'')])
          @ symlink_names (map_of [(''APP_PATH'', ''build/Release/Other.app'')]))
   \<and> \<not> set (extension_hidden_items (map_of [(''APP_PATH'', ''build/Release/Other.app'')])) \<subseteq>
     set (file_entry_basenames (map_of [(''APP_PATH'', ''build/Release/Other.app'')])
          @ symlink_names (map_of [(''APP_PATH'', ''build/Release/Other.app'')]))"
proof -
  let ?env = "map_of [(''APP_PATH'', ''build/Release/Other.app'')]"
  have pos: "''GitBar.app'' \<in> set (positioned_items ?env)"
    by (simp add: positioned_items_def dict_keys_def setting_eval final_namespace_def)
  have hid: "''GitBar.app'' \<in> set (extension_hidden_items ?env)"
    by (simp add: extension_hidden_items_def str_items_def setting_eval final_namespace_def)
  have names: "''GitBar.app'' \<notin> set (file_entry_basenames ?env @ symlink_names ?env)"
    by (simp add: file_entry_basenames_def symlink_names_def dict_keys_def str_items_def
          setting_eval final_namespace_def environ_get_def basename_def)
  from pos hid names show ?thesis by blast
qed

text \<open>
  C9, amended. For every environment the set of keys of the icon-position mapping is
  exactly \<^verbatim>\<open>{'GitBar.app', 'Applications'}\<close> and every entry of the hidden-extension list
  is one of these keys. Whenever the basename of the single file entry is
  \<^verbatim>\<open>GitBar.app\<close>, as it is when \<^verbatim>\<open>APP_PATH\<close> is unset, that key set is the basename of
  the single file entry together with the single symlink name, so every positioned or
  extension-hidden item is then the basename of the file entry or the name of the
  symlink.
\<close>

theorem C9_positioned_items:
  "set (positioned_items env) = {''GitBar.app'', ''Applications''}
   \<and> set (extension_hidden_items env) \<subseteq> set (positioned_items env)
   \<and> (file_entry_basenames env = [''GitBar.app''] \<longrightarrow>
        set (positioned_items env) = set (file_entry_basenames env @ symlink_names env)
        \<and> set (extension_hidden_items env) \<subseteq>
            set (file_entry_basenames env @ symlink_names env))
   \<and> (env ''APP_PATH'' = None \<longrightarrow> file_entry_basenames env = [''GitBar.app''])"
proof -
  have keys: "set (positioned_items env) = {''GitBar.app'', ''Applications''}"
    by (simp add: positioned_items_eval)
  have hidden: "set (extension_hidden_items env) \<subseteq> set (positioned_items env)"
    by (simp add: positioned_items_eval extension_hidden_items_eval)
  have names: "set (file_entry_basenames env @ symlink_names env) =
      {''GitBar.app'', ''Applications''}"
    if "file_entry_basenames env = [''GitBar.app'']"
    using that by (simp add: symlink_names_eval)
  have unset: "file_entry_basenames env = [''GitBar.app'']" if "env ''APP_PATH'' = None"
    using that by (simp add: file_entry_basenames_eval environ_get_def basename_def)
  from keys hidden names unset show ?thesis by simp
qed

text \<open>
  The amended C9 at two environments: one whose \<^verbatim>\<open>APP_PATH\<close> is another directory
  holding \<^verbatim>\<open>GitBar.app\<close>, and the empty one, where \<^verbatim>\<open>APP_PATH\<close> is unset.
\<close>

theorem C9_positioned_items_witness:
  "file_entry_basenames (map_of [(''APP_PATH'', ''/tmp/out/GitBar.app'')]) = [''GitBar.app'']
   \<and> set (positioned_items (map_of [(''APP_PATH'', ''/tmp/out/GitBar.app'')])) =
     set (file_entry_basenames (map_of [(''APP_PATH'', ''/tmp/out/GitBar.app'')])
          @ symlink_names (map_of [(''APP_PATH'', ''/tmp/out/GitBar.app'')]))
   \<and> set (extension_hidden_items (map_of [(''APP_PATH'', ''/tmp/out/GitBar.app'')])) \<subseteq>
     set (file_entry_basenames (map_of [(''APP_PATH'', ''/tmp/out/GitBar.app'')])
          @ symlink_names (map_of [(''APP_PATH'', ''/tmp/out/GitBar.app'')]))
   \<and> (map_of [] :: environ) ''APP_PATH'' = None
   \<and> file_entry_basenames (map_of []) = [''GitBar.app'']
   \<and> set (positioned_items (map_of [])) =
     set (file_entry_basenames (map_of []) @ symlink_names (map_of []))"
proof -
  let ?set = "map_of [(''APP_PATH'', ''/tmp/out/GitBar.app'')] :: environ"
  let ?unset = "map_of [] :: environ"
  have a: "file_entry_basenames ?set = [''GitBar.app'']"
    by (simp add: file_entry_basenames_eval environ_get_def basename_def)
  have b: "?unset ''APP_PATH'' = None"
    by simp
  from C9_positioned_items [of ?set] C9_positioned_items [of ?unset] a b
  show ?thesis by blast
qed

subsection \<open>C10: the volume size\<close>

text \<open>
  C10. The module also defines the volume-size setting \<^verbatim>\<open>size\<close>, which is not one of
  the eleven names of the spec's schema; for every environment its value is \<^verbatim>\<open>None\<close>
  (the external tool then calculates the size of the image).
\<close>

theorem C10_size_is_None:
  "setting ''size'' env = Some PNone \<and> ''size'' \<notin> set schema_names"
  by (simp add: setting_eval final_namespace_def schema_names_def)

end
